theory Spec2Isabelle
  imports Main
begin

section \<open>Python primitives used by the two front ends\<close>

text \<open>
  Strings are lists of characters. \<open>py_isspace\<close> is \<open>str.isspace\<close> on one character
  of the Latin-1 range, \<open>py_strip\<close> is \<open>str.strip()\<close> without argument, and
  \<open>x or d\<close> on strings picks \<open>d\<close> exactly when \<open>x\<close> is the empty string.
\<close>

definition py_isspace :: "char \<Rightarrow> bool" where
  "py_isspace c = ((of_char c :: nat) \<in> {9, 10, 11, 12, 13, 28, 29, 30, 31, 32, 133, 160})"

definition py_strip :: "string \<Rightarrow> string" where
  "py_strip s = rev (dropWhile py_isspace (rev (dropWhile py_isspace s)))"

definition or_str :: "string \<Rightarrow> string \<Rightarrow> string" where
  "or_str x d = (if x = [] then d else x)"

definition or_None :: "string \<Rightarrow> string option" where
  "or_None x = (if x = [] then None else Some x)"

definition is_digit :: "char \<Rightarrow> bool" where
  "is_digit c = (48 \<le> (of_char c :: nat) \<and> (of_char c :: nat) \<le> 57)"

definition is_upper :: "char \<Rightarrow> bool" where
  "is_upper c = (65 \<le> (of_char c :: nat) \<and> (of_char c :: nat) \<le> 90)"

definition is_lower :: "char \<Rightarrow> bool" where
  "is_lower c = (97 \<le> (of_char c :: nat) \<and> (of_char c :: nat) \<le> 122)"

definition to_upper :: "char \<Rightarrow> char" where
  "to_upper c = (if is_lower c then char_of ((of_char c :: nat) - 32) else c)"

definition to_lower :: "char \<Rightarrow> char" where
  "to_lower c = (if is_upper c then char_of ((of_char c :: nat) + 32) else c)"

definition digit_val :: "char \<Rightarrow> nat" where
  "digit_val c = (of_char c :: nat) - 48"

definition digit_char :: "nat \<Rightarrow> char" where
  "digit_char n = char_of (48 + n)"

definition digits_val :: "string \<Rightarrow> nat" where
  "digits_val s = foldl (\<lambda>a c. 10 * a + digit_val c) 0 s"

fun show_nat :: "nat \<Rightarrow> string" where
  "show_nat n = (if n < 10 then [digit_char n] else show_nat (n div 10) @ [digit_char (n mod 10)])"

declare show_nat.simps [simp del]

definition newline :: char where
  "newline = CHR 0x0A"

definition dquote :: char where
  "dquote = CHR 0x22"

fun join_lines :: "string list \<Rightarrow> string" where
  "join_lines [] = []"
| "join_lines [l] = l"
| "join_lines (l # m # ls) = l @ newline # join_lines (m # ls)"

fun lines_of :: "string \<Rightarrow> string list" where
  "lines_of [] = [[]]"
| "lines_of (c # cs) =
     (if c = newline then [] # lines_of cs
      else (case lines_of cs of [] \<Rightarrow> [[c]] | l # ls \<Rightarrow> (c # l) # ls))"

fun contains :: "string \<Rightarrow> string \<Rightarrow> bool" where
  "contains needle [] = (needle = [])"
| "contains needle (c # cs) =
     (take (length needle) (c # cs) = needle \<or> contains needle cs)"

section \<open>Exact decimals (Python \<open>Decimal\<close>)\<close>

text \<open>
  A finite decimal is sign, coefficient and exponent, its value being
  \<open>\<plusminus> coefficient * 10 ^ exponent\<close>; infinities and NaNs are one further value.
  \<open>parse_decimal\<close> is the constructor \<open>Decimal(str)\<close> on the numeric-string grammar
  \<open>[sign] (digits [. digits] | . digits) [e [sign] digits]\<close>, on the words for infinity
  and NaN, after surrounding white space has gone; \<open>None\<close> is \<open>InvalidOperation\<close>.
  Underscores between digits and digits outside ASCII are not covered.
\<close>

datatype decimal = Finite bool nat int | NonFinite

definition split_sign :: "string \<Rightarrow> bool \<times> string" where
  "split_sign s =
     (case s of [] \<Rightarrow> (False, [])
      | c # cs \<Rightarrow> if c = CHR ''-'' then (True, cs)
                  else if c = CHR ''+'' then (False, cs) else (False, s))"

definition parse_exponent :: "string \<Rightarrow> int option" where
  "parse_exponent s =
     (case s of [] \<Rightarrow> Some 0
      | c # cs \<Rightarrow>
          if c = CHR ''e'' \<or> c = CHR ''E'' then
            (let (neg, ds) = split_sign cs in
             if ds \<noteq> [] \<and> list_all is_digit ds
             then Some (if neg then - int (digits_val ds) else int (digits_val ds))
             else None)
          else None)"

definition is_special_word :: "string \<Rightarrow> bool" where
  "is_special_word s =
     (let w = map to_lower s in
      w = ''inf'' \<or> w = ''infinity''
      \<or> (take 3 w = ''nan'' \<and> list_all is_digit (drop 3 w))
      \<or> (take 4 w = ''snan'' \<and> list_all is_digit (drop 4 w)))"

definition parse_decimal :: "string \<Rightarrow> decimal option" where
  "parse_decimal text =
     (let (neg, s) = split_sign (py_strip text);
          ip = takeWhile is_digit s;
          r = dropWhile is_digit s;
          fp = (case r of [] \<Rightarrow> [] | c # cs \<Rightarrow> if c = CHR ''.'' then takeWhile is_digit cs else []);
          rest = (case r of [] \<Rightarrow> [] | c # cs \<Rightarrow> if c = CHR ''.'' then dropWhile is_digit cs else r)
      in if is_special_word s then Some NonFinite
         else if ip = [] \<and> fp = [] then None
         else (case parse_exponent rest of
                 None \<Rightarrow> None
               | Some e \<Rightarrow> Some (Finite neg (digits_val (ip @ fp)) (e - int (length fp)))))"

definition is_positive :: "decimal \<Rightarrow> bool" where
  "is_positive d = (case d of Finite neg c e \<Rightarrow> \<not> neg \<and> 0 < c | NonFinite \<Rightarrow> False)"

section \<open>The payment model\<close>

text \<open>
  The modules \<open>swift_messages\<close> and \<open>swift_iso_validator\<close> are imported by both front
  ends, but their text is not part of the sources at hand. Their data and functions are
  modelled from the specification; every such definition says so.
\<close>

text \<open>Modelled from the spec: a calendar date, the type of \<open>value_date\<close> (section 3).\<close>

record date =
  year :: nat
  month :: nat
  day :: nat

definition leap_year :: "nat \<Rightarrow> bool" where
  "leap_year y = ((y mod 4 = 0 \<and> y mod 100 \<noteq> 0) \<or> y mod 400 = 0)"

definition days_in_month :: "nat \<Rightarrow> nat \<Rightarrow> nat" where
  "days_in_month y m =
     (if m = 2 then (if leap_year y then 29 else 28)
      else if m = 4 \<or> m = 6 \<or> m = 9 \<or> m = 11 then 30 else 31)"

definition valid_date :: "date \<Rightarrow> bool" where
  "valid_date d = (1 \<le> year d \<and> year d \<le> 9999 \<and> 1 \<le> month d \<and> month d \<le> 12
                   \<and> 1 \<le> day d \<and> day d \<le> days_in_month (year d) (month d))"

text \<open>Modelled from the spec: the ISO form \<open>YYYY-MM-DD\<close> of a date string (section 6).\<close>

definition parse_date :: "string \<Rightarrow> date option" where
  "parse_date s =
     (if length s = 10 \<and> list_all is_digit (take 4 s) \<and> s ! 4 = CHR ''-''
         \<and> list_all is_digit (take 2 (drop 5 s)) \<and> s ! 7 = CHR ''-''
         \<and> list_all is_digit (drop 8 s)
      then (let d = \<lparr>year = digits_val (take 4 s), month = digits_val (take 2 (drop 5 s)),
                      day = digits_val (drop 8 s)\<rparr>
            in if valid_date d then Some d else None)
      else None)"

text \<open>
  Modelled from the spec: the Payment value of section 3, the record that
  \<open>payment_from_transaction\<close> returns and both generators consume.
\<close>

record payment =
  ordering_account :: string
  ordering_name :: string
  beneficiary_account :: string
  beneficiary_name :: string
  beneficiary_bic :: "string option"
  amount :: decimal
  currency :: string
  value_date :: date
  remittance_info :: string
  reference :: string

datatype error =
    InputError string
  | ValueError string
  | SchemaNotFoundError string

definition error_message :: "error \<Rightarrow> string" where
  "error_message e = (case e of InputError m \<Rightarrow> m | ValueError m \<Rightarrow> m | SchemaNotFoundError m \<Rightarrow> m)"

definition is_alnum_upper :: "char \<Rightarrow> bool" where
  "is_alnum_upper c = (is_upper c \<or> is_digit c)"

text \<open>
  Modelled from the spec: the shape of a bank identifier code (section 3): 8 or 11
  characters, four letters, two letters, two alphanumerics, and an optional branch of
  three alphanumerics, all upper case.
\<close>

definition bic_shape :: "string \<Rightarrow> bool" where
  "bic_shape b = ((length b = 8 \<or> length b = 11) \<and> list_all is_upper (take 6 b)
                  \<and> list_all is_alnum_upper (drop 6 b))"

text \<open>Modelled from the spec: the invariants of a Payment value (section 3).\<close>

definition valid_payment :: "payment \<Rightarrow> bool" where
  "valid_payment p =
     (ordering_account p \<noteq> [] \<and> ordering_name p \<noteq> []
      \<and> beneficiary_account p \<noteq> [] \<and> beneficiary_name p \<noteq> []
      \<and> (case beneficiary_bic p of None \<Rightarrow> True | Some b \<Rightarrow> bic_shape b)
      \<and> is_positive (amount p)
      \<and> length (currency p) = 3 \<and> list_all is_upper (currency p)
      \<and> valid_date (value_date p))"

text \<open>
  The keyword arguments of \<open>payment_from_transaction\<close>, as both call sites pass them:
  the amount is a \<open>Decimal\<close> already, the currency a string, the other four may be
  \<open>None\<close>.
\<close>

record txn_args =
  arg_account_number :: string
  arg_account_name :: string
  arg_beneficiary_account :: string
  arg_beneficiary_name :: string
  arg_amount :: decimal
  arg_currency :: string
  arg_value_date :: "string option"
  arg_remittance_info :: "string option"
  arg_beneficiary_bic :: "string option"
  arg_reference :: "string option"

text \<open>
  What a call reads from outside: today's date and the freshly generated reference (the
  two defaults of the builder that are not functions of its arguments).
\<close>

record clock =
  today :: date
  fresh_reference :: string

text \<open>
  Modelled from the spec: \<open>payment_from_transaction\<close> of \<open>swift_messages\<close>, the Payment
  Model builder of section 4.1. It checks, in this order, that the party fields are not
  empty, that the amount is a positive exact decimal, that the currency normalises to
  three upper-case letters (\<open>USD\<close> when blank), that the value date parses (today when
  absent) and that the BIC, when given, has the shape; the first failure is an
  \<open>InputError\<close> naming the field, and no Payment is returned.
\<close>

definition payment_from_transaction :: "clock \<Rightarrow> txn_args \<Rightarrow> error + payment" where
  "payment_from_transaction clk a =
     (if arg_account_number a = [] then Inl (InputError ''ordering_account'')
      else if arg_account_name a = [] then Inl (InputError ''ordering_name'')
      else if arg_beneficiary_account a = [] then Inl (InputError ''beneficiary_account'')
      else if arg_beneficiary_name a = [] then Inl (InputError ''beneficiary_name'')
      else if \<not> is_positive (arg_amount a) then Inl (InputError ''amount'')
      else
        (let cur = or_str (map to_upper (py_strip (arg_currency a))) ''USD'' in
         if \<not> (length cur = 3 \<and> list_all is_upper cur) then Inl (InputError ''currency'')
         else
           (case (case arg_value_date a of None \<Rightarrow> Some (today clk) | Some s \<Rightarrow> parse_date s) of
              None \<Rightarrow> Inl (InputError ''value_date'')
            | Some d \<Rightarrow>
                (case arg_beneficiary_bic a of
                   Some b \<Rightarrow>
                     if \<not> bic_shape b then Inl (InputError ''beneficiary_bic'')
                     else Inr \<lparr>ordering_account = arg_account_number a,
                               ordering_name = arg_account_name a,
                               beneficiary_account = arg_beneficiary_account a,
                               beneficiary_name = arg_beneficiary_name a,
                               beneficiary_bic = Some b,
                               amount = arg_amount a, currency = cur, value_date = d,
                               remittance_info = (case arg_remittance_info a of None \<Rightarrow> [] | Some r \<Rightarrow> r),
                               reference = (case arg_reference a of None \<Rightarrow> fresh_reference clk | Some r \<Rightarrow> r)\<rparr>
                 | None \<Rightarrow>
                     Inr \<lparr>ordering_account = arg_account_number a,
                          ordering_name = arg_account_name a,
                          beneficiary_account = arg_beneficiary_account a,
                          beneficiary_name = arg_beneficiary_name a,
                          beneficiary_bic = None,
                          amount = arg_amount a, currency = cur, value_date = d,
                          remittance_info = (case arg_remittance_info a of None \<Rightarrow> [] | Some r \<Rightarrow> r),
                          reference = (case arg_reference a of None \<Rightarrow> fresh_reference clk | Some r \<Rightarrow> r)\<rparr>))))"

text \<open>
  Modelled from the spec: the Payment Model on raw field values (section 4.1, "strings
  plus a numeric amount string"): the amount string is read as an exact decimal, an
  unreadable one being an \<open>InputError\<close> on the amount, and the rest is the builder above.
\<close>

record raw_payment =
  raw_ordering_account :: string
  raw_ordering_name :: string
  raw_beneficiary_account :: string
  raw_beneficiary_name :: string
  raw_beneficiary_bic :: "string option"
  raw_amount :: string
  raw_currency :: string
  raw_value_date :: "string option"
  raw_remittance_info :: "string option"
  raw_reference :: "string option"

definition payment_model :: "clock \<Rightarrow> raw_payment \<Rightarrow> error + payment" where
  "payment_model clk r =
     (case parse_decimal (raw_amount r) of
        None \<Rightarrow>
          (if raw_ordering_account r = [] then Inl (InputError ''ordering_account'')
           else if raw_ordering_name r = [] then Inl (InputError ''ordering_name'')
           else if raw_beneficiary_account r = [] then Inl (InputError ''beneficiary_account'')
           else if raw_beneficiary_name r = [] then Inl (InputError ''beneficiary_name'')
           else Inl (InputError ''amount''))
      | Some d \<Rightarrow>
          payment_from_transaction clk
            \<lparr>arg_account_number = raw_ordering_account r,
             arg_account_name = raw_ordering_name r,
             arg_beneficiary_account = raw_beneficiary_account r,
             arg_beneficiary_name = raw_beneficiary_name r,
             arg_amount = d,
             arg_currency = raw_currency r,
             arg_value_date = raw_value_date r,
             arg_remittance_info = raw_remittance_info r,
             arg_beneficiary_bic = raw_beneficiary_bic r,
             arg_reference = raw_reference r\<rparr>)"

section \<open>The MT103 generator\<close>

definition zfill :: "nat \<Rightarrow> string \<Rightarrow> string" where
  "zfill k s = replicate (k - length s) (CHR ''0'') @ s"

definition yymmdd :: "date \<Rightarrow> string" where
  "yymmdd d = zfill 2 (show_nat (year d mod 100)) @ zfill 2 (show_nat (month d))
              @ zfill 2 (show_nat (day d))"

definition iso_date :: "date \<Rightarrow> string" where
  "iso_date d = zfill 4 (show_nat (year d)) @ ''-'' @ zfill 2 (show_nat (month d))
                @ ''-'' @ zfill 2 (show_nat (day d))"

text \<open>
  Modelled from the spec: the amount of \<open>:32A:\<close> (section 4.2, item 3): the exact digits
  of the amount, a comma as fractional separator, no thousands separator, and zeros
  added on the right until there are two fractional digits.
\<close>

definition mt_amount :: "decimal \<Rightarrow> string" where
  "mt_amount d =
     (case d of
        NonFinite \<Rightarrow> []
      | Finite neg c e \<Rightarrow>
          (if neg then ''-'' else []) @
          (if 0 \<le> e then show_nat (c * 10 ^ nat e) @ '','' @ ''00''
           else (let k = nat (- e);
                     ds = zfill (k + 1) (show_nat c);
                     ip = take (length ds - k) ds;
                     fp = drop (length ds - k) ds
                 in ip @ '','' @ fp @ replicate (2 - length fp) (CHR ''0''))))"

text \<open>
  Modelled from the spec: word wrapping into lines of at most \<open>w\<close> characters (section
  4.2, items 4 to 6). The text is cut into words at white space, a word longer than a
  line is cut into pieces of \<open>w\<close> characters, and the lines are filled greedily, the
  words of a line one space apart.
\<close>

fun words_from :: "string \<Rightarrow> string \<Rightarrow> string list" where
  "words_from cur [] = (if cur = [] then [] else [cur])"
| "words_from cur (c # cs) =
     (if py_isspace c then (if cur = [] then words_from [] cs else cur # words_from [] cs)
      else words_from (cur @ [c]) cs)"

definition split_words :: "string \<Rightarrow> string list" where
  "split_words text = words_from [] text"

function chunks :: "nat \<Rightarrow> string \<Rightarrow> string list" where
  "chunks w s = (if w = 0 \<or> length s \<le> w then [s] else take w s # chunks w (drop w s))"
  by pat_completeness auto
termination
  by (relation "measure (\<lambda>(w, s). length s)") auto

declare chunks.simps [simp del]

fun fill_lines :: "nat \<Rightarrow> string \<Rightarrow> string list \<Rightarrow> string list" where
  "fill_lines w cur [] = (if cur = [] then [] else [cur])"
| "fill_lines w cur (x # xs) =
     (if cur = [] then fill_lines w x xs
      else if length cur + 1 + length x \<le> w then fill_lines w (cur @ CHR '' '' # x) xs
      else cur # fill_lines w x xs)"

definition wrap :: "nat \<Rightarrow> string \<Rightarrow> string list" where
  "wrap w text = fill_lines w [] (concat (map (chunks w) (split_words text)))"

text \<open>The tag of a field is written in front of the field's first line.\<close>

fun tagged :: "string \<Rightarrow> string list \<Rightarrow> string list" where
  "tagged t [] = [t]"
| "tagged t (l # ls) = (t @ l) # ls"

text \<open>
  Modelled from the spec: the three wrapped fields (section 4.2, items 4 to 6). The
  account stands on a line of its own behind a slash, the BIC, when there is one, on a
  line before it, the wrapped name follows, and a field has at most 4 lines: what
  overflows is cut off (the policy of section 4.2), and \<open>mt103_overflow\<close> says when.
\<close>

definition ordering_block :: "payment \<Rightarrow> string list" where
  "ordering_block p = (CHR ''/'' # ordering_account p) # wrap 35 (ordering_name p)"

definition beneficiary_block :: "payment \<Rightarrow> string list" where
  "beneficiary_block p =
     (case beneficiary_bic p of None \<Rightarrow> [] | Some b \<Rightarrow> [b])
     @ (CHR ''/'' # beneficiary_account p) # wrap 35 (beneficiary_name p)"

definition remittance_block :: "payment \<Rightarrow> string list" where
  "remittance_block p = wrap 35 (remittance_info p)"

definition mt103_overflow :: "payment \<Rightarrow> bool" where
  "mt103_overflow p = (4 < length (ordering_block p) \<or> 4 < length (beneficiary_block p)
                       \<or> 4 < length (remittance_block p))"

text \<open>
  Modelled from the spec: \<open>generate_mt103\<close> of \<open>swift_messages\<close>, the MT103 Generator of
  section 4.2: the seven fields in their fixed order, \<open>:70:\<close> left out when there is no
  remittance information, the lines one line break apart and nothing after \<open>:71A:\<close>.
\<close>

definition mt103_lines :: "payment \<Rightarrow> string list" where
  "mt103_lines p =
     ['':20:'' @ reference p,
      '':23B:CRED'',
      '':32A:'' @ yymmdd (value_date p) @ currency p @ mt_amount (amount p)]
     @ tagged '':50K:'' (take 4 (ordering_block p))
     @ tagged '':59:'' (take 4 (beneficiary_block p))
     @ (if remittance_info p = [] then [] else tagged '':70:'' (take 4 (remittance_block p)))
     @ ['':71A:OUR'']"

definition generate_mt103 :: "payment \<Rightarrow> string" where
  "generate_mt103 p = join_lines (mt103_lines p)"

section \<open>The MT103 validator\<close>

text \<open>
  Modelled from the spec: how the validator of section 4.4 reads a text. A physical line
  starts a field when it begins with a tag, that is a colon, two digits, at most one
  upper-case letter and a colon; the lines up to the next such line belong to the field.
  A field is its tag and its lines, the first line without the tag. Lines before the
  first tag belong to no field.
\<close>

fun tag_of :: "string \<Rightarrow> (string \<times> string) option" where
  "tag_of (c0 # c1 # c2 # c3 # rest) =
     (if c0 = CHR '':'' \<and> is_digit c1 \<and> is_digit c2 then
        (if c3 = CHR '':'' then Some ([c0, c1, c2, c3], rest)
         else (case rest of
                 [] \<Rightarrow> None
               | c4 # rest' \<Rightarrow>
                   if is_upper c3 \<and> c4 = CHR '':'' then Some ([c0, c1, c2, c3, c4], rest')
                   else None))
      else None)"
| "tag_of _ = None"

fun group_fields :: "string list \<Rightarrow> string list \<times> (string \<times> string list) list" where
  "group_fields [] = ([], [])"
| "group_fields (l # ls) =
     (case tag_of l of
        Some (t, v) \<Rightarrow> ([], (t, v # fst (group_fields ls)) # snd (group_fields ls))
      | None \<Rightarrow> (l # fst (group_fields ls), snd (group_fields ls)))"

definition fields_of :: "string \<Rightarrow> (string \<times> string list) list" where
  "fields_of text = snd (group_fields (lines_of text))"

definition tags_of :: "string \<Rightarrow> string list" where
  "tags_of text = map fst (fields_of text)"

definition mandatory_tags :: "string list" where
  "mandatory_tags = ['':20:'', '':23B:'', '':32A:'', '':50K:'', '':59:'', '':71A:'']"

definition wrapped_tags :: "string list" where
  "wrapped_tags = ['':50K:'', '':59:'', '':70:'']"

definition tag_order :: "string list" where
  "tag_order = ['':20:'', '':23B:'', '':32A:'', '':50K:'', '':59:'', '':70:'', '':71A:'']"

text \<open>
  Modelled from the spec: the pattern of \<open>:32A:\<close> (section 4.4): six digits, three
  upper-case letters, then digits, a comma and the fractional digits.
\<close>

definition matches_32A :: "string \<Rightarrow> bool" where
  "matches_32A v =
     (list_all is_digit (take 6 v) \<and> length (take 6 v) = 6
      \<and> list_all is_upper (take 3 (drop 6 v)) \<and> length (take 3 (drop 6 v)) = 3
      \<and> (let a = drop 9 v; ip = takeWhile is_digit a; r = dropWhile is_digit a
         in ip \<noteq> [] \<and> (case r of [] \<Rightarrow> False
                         | c # fp \<Rightarrow> c = CHR '','' \<and> list_all is_digit fp)))"

text \<open>Modelled from the spec: the four checks of section 4.4, in the order it lists them.\<close>

definition missing_issues :: "(string \<times> string list) list \<Rightarrow> string list" where
  "missing_issues fs =
     map (\<lambda>t. ''Missing mandatory tag '' @ t)
         (filter (\<lambda>t. t \<notin> set (map fst fs)) mandatory_tags)"

definition amount_issues :: "(string \<times> string list) list \<Rightarrow> string list" where
  "amount_issues fs =
     map (\<lambda>f. ''Invalid format of tag :32A:'')
         (filter (\<lambda>f. fst f = '':32A:'' \<and> \<not> matches_32A (case snd f of [] \<Rightarrow> [] | v # _ \<Rightarrow> v)) fs)"

definition length_issues :: "(string \<times> string list) list \<Rightarrow> string list" where
  "length_issues fs =
     concat (map (\<lambda>f. if fst f \<in> set wrapped_tags
                       then map (\<lambda>l. ''Line longer than 35 characters in tag '' @ fst f)
                                (filter (\<lambda>l. 35 < length l) (snd f))
                       else []) fs)"

definition duplicate_issues :: "(string \<times> string list) list \<Rightarrow> string list" where
  "duplicate_issues fs =
     map (\<lambda>t. ''Duplicate tag '' @ t)
         (filter (\<lambda>t. 1 < count_list (map fst fs) t) (remdups (map fst fs)))"

fun rank_of :: "string \<Rightarrow> string list \<Rightarrow> nat" where
  "rank_of t [] = 0"
| "rank_of t (x # xs) = (if t = x then 0 else Suc (rank_of t xs))"

fun order_issues_of :: "string list \<Rightarrow> string list" where
  "order_issues_of (a # b # ts) =
     (if rank_of b tag_order < rank_of a tag_order
      then (''Tag out of order '' @ b) # order_issues_of (b # ts)
      else order_issues_of (b # ts))"
| "order_issues_of _ = []"

definition order_issues :: "(string \<times> string list) list \<Rightarrow> string list" where
  "order_issues fs = order_issues_of (filter (\<lambda>t. t \<in> set tag_order) (map fst fs))"

text \<open>
  Modelled from the spec: \<open>validate_mt103_text\<close> of \<open>swift_iso_validator\<close>, the MT103
  Validator of section 4.4. The issues are those of the four checks in their order, and
  the text is valid exactly when there is none.
\<close>

definition validate_mt103_text :: "string \<Rightarrow> bool \<times> string list" where
  "validate_mt103_text text =
     (let fs = fields_of text;
          issues = missing_issues fs @ amount_issues fs @ length_issues fs
                   @ duplicate_issues fs @ order_issues fs
      in (issues = [], issues))"

section \<open>The pain.001 generator\<close>

text \<open>
  Modelled from the spec: an XML document as a tree of elements with attributes and
  text, written out with the five reserved characters escaped (section 4.3).
\<close>

datatype xml = Elem string "(string \<times> string) list" "xml list" | Text string

definition xml_escape_char :: "char \<Rightarrow> string" where
  "xml_escape_char c =
     (if c = CHR ''&'' then ''&amp;''
      else if c = CHR ''<'' then ''&lt;''
      else if c = CHR ''>'' then ''&gt;''
      else if c = dquote then ''&quot;''
      else if c = CHR 0x27 then ''&apos;''
      else [c])"

definition xml_escape :: "string \<Rightarrow> string" where
  "xml_escape s = concat (map xml_escape_char s)"

definition xml_attr :: "string \<times> string \<Rightarrow> string" where
  "xml_attr a = CHR '' '' # fst a @ CHR ''='' # dquote # xml_escape (snd a) @ [dquote]"

fun serialize :: "xml \<Rightarrow> string" where
  "serialize (Text s) = xml_escape s"
| "serialize (Elem n as cs) =
     CHR ''<'' # n @ concat (map xml_attr as) @ CHR ''>'' # concat (map serialize cs)
     @ ''</'' @ n @ ''>''"

text \<open>
  Modelled from the spec: the amount with exactly two fractional digits and a decimal
  point (section 4.3). An amount with more than two fractional digits is rounded to the
  nearest hundredth, a tie to the even one, as \<open>Decimal.quantize\<close> does by default.
\<close>

definition hundredths :: "decimal \<Rightarrow> nat" where
  "hundredths d =
     (case d of
        NonFinite \<Rightarrow> 0
      | Finite neg c e \<Rightarrow>
          if - 2 \<le> e then c * 10 ^ nat (e + 2)
          else (let k = nat (- e - 2); q = c div 10 ^ k; r = c mod 10 ^ k
                in if 10 ^ k < 2 * r \<or> (2 * r = 10 ^ k \<and> odd q) then q + 1 else q))"

definition xml_amount :: "decimal \<Rightarrow> string" where
  "xml_amount d =
     (let ds = zfill 3 (show_nat (hundredths d))
      in (case d of Finite neg c e \<Rightarrow> if neg then ''-'' else [] | NonFinite \<Rightarrow> [])
         @ take (length ds - 2) ds @ ''.'' @ drop (length ds - 2) ds)"

text \<open>
  What the generator takes from outside the Payment: the creation timestamp, the one
  field that varies between calls, and the two identifiers and the namespace, which the
  specification names without fixing them.
\<close>

record xml_header =
  creation_time :: string
  message_id :: string
  payment_info_id :: string
  xml_namespace :: string

definition group_header :: "xml_header \<Rightarrow> payment \<Rightarrow> xml" where
  "group_header h p =
     Elem ''GrpHdr'' []
       [Elem ''MsgId'' [] [Text (message_id h)],
        Elem ''CreDtTm'' [] [Text (creation_time h)],
        Elem ''NbOfTxs'' [] [Text ''1''],
        Elem ''CtrlSum'' [] [Text (xml_amount (amount p))],
        Elem ''InitgPty'' [] [Elem ''Nm'' [] [Text (ordering_name p)]]]"

definition instructed_amount :: "payment \<Rightarrow> xml" where
  "instructed_amount p = Elem ''InstdAmt'' [(''Ccy'', currency p)] [Text (xml_amount (amount p))]"

definition end_to_end_id :: "payment \<Rightarrow> xml" where
  "end_to_end_id p = Elem ''EndToEndId'' [] [Text (reference p)]"

definition credit_transfer :: "payment \<Rightarrow> xml" where
  "credit_transfer p =
     Elem ''CdtTrfTxInf'' []
       ([Elem ''PmtId'' [] [end_to_end_id p],
         Elem ''Amt'' [] [instructed_amount p]]
        @ (case beneficiary_bic p of
             None \<Rightarrow> []
           | Some b \<Rightarrow> [Elem ''CdtrAgt'' [] [Elem ''FinInstnId'' [] [Elem ''BIC'' [] [Text b]]]])
        @ [Elem ''Cdtr'' [] [Elem ''Nm'' [] [Text (beneficiary_name p)]],
           Elem ''CdtrAcct'' [] [Elem ''Id'' [] [Elem ''IBAN'' [] [Text (beneficiary_account p)]]]]
        @ (if remittance_info p = [] then []
           else [Elem ''RmtInf'' [] [Elem ''Ustrd'' [] [Text (remittance_info p)]]]))"

definition payment_information :: "xml_header \<Rightarrow> payment \<Rightarrow> xml" where
  "payment_information h p =
     Elem ''PmtInf'' []
       [Elem ''PmtInfId'' [] [Text (payment_info_id h)],
        Elem ''PmtMtd'' [] [Text ''TRF''],
        Elem ''ReqdExctnDt'' [] [Text (iso_date (value_date p))],
        Elem ''Dbtr'' [] [Elem ''Nm'' [] [Text (ordering_name p)]],
        Elem ''DbtrAcct'' [] [Elem ''Id'' [] [Elem ''IBAN'' [] [Text (ordering_account p)]]],
        credit_transfer p]"

definition pain001_document :: "xml_header \<Rightarrow> payment \<Rightarrow> xml" where
  "pain001_document h p =
     Elem ''Document'' [(''xmlns'', xml_namespace h)]
       [Elem ''CstmrCdtTrfInitn'' [] [group_header h p, payment_information h p]]"

definition xml_declaration :: string where
  "xml_declaration = ''<?xml version='' @ [dquote] @ ''1.0'' @ [dquote] @ '' encoding=''
                     @ [dquote] @ ''UTF-8'' @ [dquote] @ ''?>'' @ [newline]"

text \<open>
  Modelled from the spec: \<open>generate_pain001\<close> of \<open>swift_messages\<close>, the Pain001 Generator
  of section 4.3: a single-transaction credit-transfer initiation with the group header,
  the payment information block and the transaction of that section, declared as UTF-8.
\<close>

definition generate_pain001 :: "xml_header \<Rightarrow> payment \<Rightarrow> string" where
  "generate_pain001 h p = xml_declaration @ serialize (pain001_document h p)"

section \<open>The pain.001 validator\<close>

text \<open>
  The XML parser and the schema processor are libraries. The validator takes from them
  whether a text parses (\<open>None\<close>, or the parse error), what a path holds on disk, and the
  violations of a document against the schema read from a file.
\<close>

datatype file_status = Missing | Unreadable | Readable string

record xml_library =
  parse_failure :: "string \<Rightarrow> string option"
  file_at :: "string \<Rightarrow> file_status"
  schema_violations :: "string \<Rightarrow> string \<Rightarrow> string list"

definition path_exists :: "xml_library \<Rightarrow> string \<Rightarrow> bool" where
  "path_exists lib path = (file_at lib path \<noteq> Missing)"

text \<open>
  Modelled from the spec: \<open>validate_pain001_generated\<close> of \<open>swift_iso_validator\<close>, the
  Pain001 Validator of section 4.5. Stage 1 parses: a text that does not parse is
  invalid with the parse failure as its single issue, and there is no stage 2. Stage 2
  reads the schema: one that is missing or unreadable raises \<open>SchemaNotFoundError\<close>,
  otherwise every violation is an issue and the document is valid when there is none.
\<close>

definition validate_pain001_generated ::
  "xml_library \<Rightarrow> string \<Rightarrow> string \<Rightarrow> error + (bool \<times> string list)" where
  "validate_pain001_generated lib xml_text schema_path =
     (case parse_failure lib xml_text of
        Some msg \<Rightarrow> Inr (False, [''XML parse error: '' @ msg])
      | None \<Rightarrow>
          (case file_at lib schema_path of
             Readable xsd \<Rightarrow>
               (let issues = schema_violations lib xsd xml_text in Inr (issues = [], issues))
           | _ \<Rightarrow> Inl (SchemaNotFoundError (''Schema not found: '' @ schema_path))))"

section \<open>What both front ends share\<close>

text \<open>
  The ten inputs of the payment form: the line edits of the desktop window
  (\<open>self.ordering_name\<close> to \<open>self.reference_edit\<close>) and the text inputs of the web page
  (\<open>ordering_name\<close> to \<open>reference\<close>).
\<close>

record form =
  in_ordering_name :: string
  in_ordering_account :: string
  in_beneficiary_name :: string
  in_beneficiary_account :: string
  in_beneficiary_bic :: string
  in_amount :: string
  in_currency :: string
  in_value_date :: string
  in_remittance :: string
  in_reference :: string

text \<open>
  The keyword arguments of the call of \<open>payment_from_transaction\<close>, the same in
  \<open>SwiftGUI._collect_payment\<close> and in \<open>_build_payment_dict\<close>: every text is stripped, a
  blank currency becomes \<open>USD\<close>, and a blank date, remittance, BIC or reference becomes
  \<open>None\<close>.
\<close>

definition txn_args_of :: "form \<Rightarrow> decimal \<Rightarrow> txn_args" where
  "txn_args_of f amt =
     \<lparr>arg_account_number = py_strip (in_ordering_account f),
      arg_account_name = py_strip (in_ordering_name f),
      arg_beneficiary_account = py_strip (in_beneficiary_account f),
      arg_beneficiary_name = py_strip (in_beneficiary_name f),
      arg_amount = amt,
      arg_currency = or_str (py_strip (in_currency f)) ''USD'',
      arg_value_date = or_None (py_strip (in_value_date f)),
      arg_remittance_info = or_None (py_strip (in_remittance f)),
      arg_beneficiary_bic = or_None (py_strip (in_beneficiary_bic f)),
      arg_reference = or_None (py_strip (in_reference f))\<rparr>"

text \<open>The stored result of the last validation, the dictionary with the keys \<open>valid\<close> and \<open>errors\<close>.\<close>

record validation =
  valid :: bool
  errors :: "string list"

text \<open>
  What a handler does to the outside: the dialogs and messages it shows and the files,
  mails and uploads it produces. File writes are taken to succeed.
\<close>

datatype event =
    MessageBox string string string
  | StatusBar string
  | StMessage string string
  | WriteFile string string
  | AppendFile string string
  | SmtpSend string string string string
  | SftpPut string string string string string
  | SaveConfig "(string \<times> string option) list"
  | DownloadButton string string

definition is_transport :: "event \<Rightarrow> bool" where
  "is_transport e =
     (case e of WriteFile _ _ \<Rightarrow> True | AppendFile _ _ \<Rightarrow> True
      | SmtpSend _ _ _ _ \<Rightarrow> True | SftpPut _ _ _ _ _ \<Rightarrow> True | _ \<Rightarrow> False)"

text \<open>
  What a handler reads from outside: the clock, the header values of the XML generator,
  the XML library with the files on disk, the ledger (account number to the owner's name,
  if the customer is known, and the currency), the time stamp of the send log, whether
  \<open>paramiko\<close> was importable, and the exception, if any, that the mail relay or the
  remote upload raises.
\<close>

record world =
  w_clock :: clock
  w_header :: xml_header
  w_lib :: xml_library
  w_ledger :: "string \<Rightarrow> (string option \<times> string) option"
  w_utcnow :: string
  w_has_paramiko :: bool
  w_smtp_failure :: "string option"
  w_sftp_failure :: "string option"

definition truthy :: "string option \<Rightarrow> bool" where
  "truthy x = (case x of None \<Rightarrow> False | Some s \<Rightarrow> s \<noteq> [])"

definition basename :: "string \<Rightarrow> string" where
  "basename path = rev (takeWhile (\<lambda>c. c \<noteq> CHR ''/'') (rev path))"

definition path_join :: "string \<Rightarrow> string \<Rightarrow> string" where
  "path_join a b =
     (if b \<noteq> [] \<and> hd b = CHR ''/'' then b
      else if a = [] \<or> last a = CHR ''/'' then a @ b
      else a @ CHR ''/'' # b)"

definition log_entry :: "world \<Rightarrow> string \<Rightarrow> string" where
  "log_entry w content =
     ''----- '' @ w_utcnow w @ '' -----'' @ [newline] @ content @ [newline, newline]"

definition mail_text :: "string \<Rightarrow> string" where
  "mail_text content = ''Subject: SWIFT Message'' @ [newline, newline] @ content"

section \<open>The desktop front end (\<open>swift_alliance_gui.py\<close>)\<close>

text \<open>
  The state of \<open>SwiftGUI\<close>: the attributes \<open>schema_path\<close> and \<open>last_validation_result\<close>,
  the form, the checked format (0 is MT103, 1 is XML), the preview pane, the two widgets
  of the validation pane, the schema label and the logo label.
\<close>

record gui =
  schema_path :: "string option"
  last_validation_result :: validation
  inputs :: form
  format_checked :: int
  preview :: string
  validation_status_label :: string
  validation_list :: string
  schema_label :: string
  logo_label :: string

text \<open>The answers the user gives in the dialogs a handler opens.\<close>

record dialogs =
  save_file_name :: string
  open_file_name :: string
  override_yes :: bool
  send_item :: string
  send_ok :: bool
  smtp_host :: string
  smtp_ok1 :: bool
  smtp_user :: string
  smtp_ok2 :: bool
  smtp_ok3 :: bool
  smtp_recipient :: string
  smtp_ok4 :: bool
  sftp_host :: string
  sftp_ok1 :: bool
  sftp_port :: string
  sftp_ok2 :: bool
  sftp_user :: string
  sftp_ok3 :: bool
  sftp_ok4 :: bool
  sftp_remote_path :: string
  sftp_ok5 :: bool
  current_account :: "string option"
  logo_data :: string

text \<open>\<open>SwiftGUI.__init__\<close> with the initial texts of \<open>_build_ui\<close>.\<close>

definition gui_init :: "world \<Rightarrow> gui" where
  "gui_init w =
     \<lparr>schema_path = None,
      last_validation_result = \<lparr>valid = False, errors = []\<rparr>,
      inputs = \<lparr>in_ordering_name = [], in_ordering_account = [], in_beneficiary_name = [],
                in_beneficiary_account = [], in_beneficiary_bic = [], in_amount = [],
                in_currency = ''USD'', in_value_date = iso_date (today (w_clock w)),
                in_remittance = [], in_reference = []\<rparr>,
      format_checked = 1,
      preview = [],
      validation_status_label = ''Validation status: Not validated'',
      validation_list = [],
      schema_label = ''No schema selected'',
      logo_label = ''No logo''\<rparr>"

text \<open>\<open>SwiftGUI._collect_payment\<close>.\<close>

definition collect_payment :: "world \<Rightarrow> gui \<Rightarrow> error + payment" where
  "collect_payment w s =
     (case parse_decimal (py_strip (in_amount (inputs s))) of
        None \<Rightarrow> Inl (ValueError ''Invalid amount (use numbers like 1234.56)'')
      | Some amt \<Rightarrow> payment_from_transaction (w_clock w) (txn_args_of (inputs s) amt))"

text \<open>\<open>SwiftGUI._set_validation_result\<close>.\<close>

definition numbered :: "string list \<Rightarrow> string" where
  "numbered es =
     concat (map (\<lambda>(i, e). show_nat i @ ''. '' @ e @ [newline]) (zip [1 ..< Suc (length es)] es))"

definition set_validation_result :: "bool \<Rightarrow> string list \<Rightarrow> gui \<Rightarrow> gui" where
  "set_validation_result v es s =
     s\<lparr>last_validation_result := \<lparr>valid = v, errors = es\<rparr>,
       validation_status_label :=
         (if v then ''Validation status: VALID'' else ''Validation status: INVALID''),
       validation_list :=
         (if v then ''No validation issues found.''
          else if es = [] then ''Unknown validation failure.'' else numbered es)\<rparr>"

text \<open>
  \<open>SwiftGUI.on_generate\<close>. Whatever is raised inside is caught and shown in a message
  box; the preview set before the failing call stays.
\<close>

definition on_generate :: "world \<Rightarrow> dialogs \<Rightarrow> gui \<Rightarrow> gui \<times> event list" where
  "on_generate w d s =
     (case collect_payment w s of
        Inl e \<Rightarrow> (s, [MessageBox ''critical'' ''Error'' (error_message e)])
      | Inr payment \<Rightarrow>
          if format_checked s = 0 then
            (let mt = generate_mt103 payment;
                 r = validate_mt103_text mt
             in (set_validation_result (fst r) (snd r) (s\<lparr>preview := mt\<rparr>),
                 [StatusBar ''MT103 preview generated and validated'']))
          else
            (let xml = generate_pain001 (w_header w) payment;
                 s1 = s\<lparr>preview := xml\<rparr>
             in if truthy (schema_path s) then
                  (case validate_pain001_generated (w_lib w) xml (the (schema_path s)) of
                     Inl e \<Rightarrow> (s1, [MessageBox ''critical'' ''Error'' (error_message e)])
                   | Inr r \<Rightarrow>
                       (set_validation_result (fst r) (snd r) s1,
                        [StatusBar (if fst r then ''XML preview generated and validated (OK)''
                                    else ''XML preview generated (validation errors)'')]))
                else
                  (set_validation_result False
                     [''No pain.001 XSD selected. Please select an XSD to validate.''] s1,
                   [StatusBar ''XML preview generated (no schema selected)''])))"

text \<open>
  The first definition of \<open>SwiftGUI.on_validate_clicked\<close> (lines 252 to 272), the one
  that validates the previewed message.
\<close>

definition on_validate_clicked_first :: "world \<Rightarrow> dialogs \<Rightarrow> gui \<Rightarrow> gui \<times> event list" where
  "on_validate_clicked_first w d s =
     (if preview s = [] then
        (s, [MessageBox ''information'' ''Nothing to validate'' ''Generate a message first.''])
      else if format_checked s = 0 then
        (let r = validate_mt103_text (preview s)
         in (set_validation_result (fst r) (snd r) s, [StatusBar ''MT103 validation completed'']))
      else if \<not> truthy (schema_path s) then
        (s, [MessageBox ''warning'' ''Schema required''
               ''Please select a pain.001 XSD to validate XML.''])
      else
        (case validate_pain001_generated (w_lib w) (preview s) (the (schema_path s)) of
           Inl e \<Rightarrow> (s, [MessageBox ''critical'' ''Schema error'' (error_message e)])
         | Inr r \<Rightarrow>
             (set_validation_result (fst r) (snd r) s,
              [StatusBar ''ISO20022 validation completed''])))"

text \<open>
  The second definition of \<open>SwiftGUI.on_validate_clicked\<close> (lines 415 to 417), whose body
  is \<open>pass\<close>.
\<close>

definition on_validate_clicked :: "world \<Rightarrow> dialogs \<Rightarrow> gui \<Rightarrow> gui \<times> event list" where
  "on_validate_clicked w d s = (s, [])"

text \<open>\<open>SwiftGUI.on_save\<close>.\<close>

definition on_save :: "world \<Rightarrow> dialogs \<Rightarrow> gui \<Rightarrow> gui \<times> event list" where
  "on_save w d s =
     (if preview s = [] then
        (s, [MessageBox ''warning'' ''Nothing to save'' ''Generate a message first.''])
      else if save_file_name d \<noteq> [] then
        (s, [WriteFile (save_file_name d) (preview s),
             StatusBar (''Saved to '' @ save_file_name d)])
      else (s, []))"

text \<open>
  \<open>SwiftGUI._send_via_smtp\<close> and \<open>SwiftGUI._send_via_sftp\<close>: a cancelled dialog ends the
  method; otherwise the \<open>try\<close> block runs, and what it raises is shown in a message box.
\<close>

definition send_via_smtp :: "world \<Rightarrow> dialogs \<Rightarrow> string \<Rightarrow> event list" where
  "send_via_smtp w d content =
     (if \<not> smtp_ok1 d \<or> \<not> smtp_ok2 d \<or> \<not> smtp_ok3 d \<or> \<not> smtp_ok4 d then []
      else SmtpSend (smtp_host d) (smtp_user d) (smtp_recipient d) (mail_text content)
           # (case w_smtp_failure w of
                None \<Rightarrow> [MessageBox ''information'' ''Email Sent'' ''Message sent (SMTP).'']
              | Some e \<Rightarrow> [MessageBox ''critical'' ''SMTP Error'' (''Failed to send: '' @ e)]))"

definition send_via_sftp :: "world \<Rightarrow> dialogs \<Rightarrow> string \<Rightarrow> event list" where
  "send_via_sftp w d content =
     (if \<not> w_has_paramiko w then
        [MessageBox ''warning'' ''Paramiko missing''
           (''SFTP requires '' @ [CHR 0x27] @ ''paramiko'' @ [CHR 0x27]
            @ '' package. Install via pip.'')]
      else if \<not> sftp_ok1 d \<or> \<not> sftp_ok2 d \<or> \<not> sftp_ok3 d \<or> \<not> sftp_ok4 d \<or> \<not> sftp_ok5 d then []
      else SftpPut (sftp_host d) (sftp_port d) (sftp_user d) (sftp_remote_path d) content
           # (case w_sftp_failure w of
                None \<Rightarrow> [MessageBox ''information'' ''SFTP'' ''Uploaded successfully (SFTP).'']
              | Some e \<Rightarrow> [MessageBox ''critical'' ''SFTP Error'' (''Upload failed: '' @ e)]))"

definition send_options :: "string list" where
  "send_options = [''Save to file (local)'', ''Send by email (SMTP)'',
                   ''Upload by SFTP (optional)'', ''Mock log only'']"

definition override_question :: event where
  "override_question =
     MessageBox ''question'' ''Validation failed''
       (''Message is not valid. Sending may be rejected by partners.'' @ [newline]
        @ ''Do you want to override and continue?'')"

text \<open>\<open>SwiftGUI.on_send\<close>.\<close>

definition on_send :: "world \<Rightarrow> dialogs \<Rightarrow> gui \<Rightarrow> gui \<times> event list" where
  "on_send w d s =
     (if preview s = [] then
        (s, [MessageBox ''warning'' ''Nothing to send'' ''Generate a message first.''])
      else if \<not> valid (last_validation_result s) \<and> \<not> override_yes d then
        (s, [override_question])
      else
        (let asked = (if \<not> valid (last_validation_result s) then [override_question] else [])
         in if \<not> send_ok d then (s, asked)
            else if send_item d = send_options ! 0 then
              (s, asked @ (if save_file_name d \<noteq> []
                           then [WriteFile (save_file_name d) (preview s),
                                 StatusBar (''Saved to '' @ save_file_name d)]
                           else []))
            else if send_item d = send_options ! 1 then
              (s, asked @ send_via_smtp w d (preview s))
            else if send_item d = send_options ! 2 then
              (s, asked @ send_via_sftp w d (preview s))
            else
              (s, asked @ [AppendFile ''swift_send_log.txt'' (log_entry w (preview s)),
                           MessageBox ''information'' ''Mock Send''
                             ''Logged to swift_send_log.txt''])))"

text \<open>\<open>SwiftGUI.select_schema_file\<close>.\<close>

definition select_schema_file :: "world \<Rightarrow> dialogs \<Rightarrow> gui \<Rightarrow> gui \<times> event list" where
  "select_schema_file w d s =
     (if open_file_name d \<noteq> [] then
        (s\<lparr>schema_path := Some (open_file_name d), schema_label := basename (open_file_name d)\<rparr>,
         [StatusBar (''Schema set: '' @ open_file_name d)])
      else (s, []))"

text \<open>
  \<open>SwiftGUI.on_account_changed\<close>, and \<open>SwiftGUI._load_accounts\<close> behind the button
  Refresh, which refills the combo box and so selects an account anew. A failing lookup
  is swallowed and changes nothing.
\<close>

definition on_account_changed :: "world \<Rightarrow> dialogs \<Rightarrow> gui \<Rightarrow> gui \<times> event list" where
  "on_account_changed w d s =
     (if \<not> truthy (current_account d) then (s, [])
      else (case w_ledger w (the (current_account d)) of
              None \<Rightarrow> (s, [])
            | Some (owner, cur) \<Rightarrow>
                (s\<lparr>inputs := (inputs s)
                     \<lparr>in_ordering_name :=
                        (case owner of None \<Rightarrow> in_ordering_name (inputs s) | Some n \<Rightarrow> n),
                      in_ordering_account := the (current_account d),
                      in_currency := cur\<rparr>\<rparr>, [])))"

definition load_accounts :: "world \<Rightarrow> dialogs \<Rightarrow> gui \<Rightarrow> gui \<times> event list" where
  "load_accounts w d s = on_account_changed w d s"

text \<open>\<open>SwiftGUI.on_load_logo\<close>: the chosen file is copied into the assets and previewed.\<close>

definition assets_dir :: string where
  "assets_dir = ''assets''"

definition on_load_logo :: "world \<Rightarrow> dialogs \<Rightarrow> gui \<Rightarrow> gui \<times> event list" where
  "on_load_logo w d s =
     (if open_file_name d = [] then (s, [])
      else (let dest = path_join assets_dir (basename (open_file_name d))
            in (s\<lparr>logo_label := basename dest\<rparr>,
                [WriteFile dest (logo_data d),
                 StatusBar (''Logo loaded to assets/'' @ basename (open_file_name d))])))"

text \<open>
  The body of \<open>class SwiftGUI\<close> binds its method names in the order of the source, a
  later \<open>def\<close> of a name replacing the earlier one in the class namespace. These are
  the methods that \<open>_build_ui\<close> connects to a signal, in that order.
\<close>

definition class_body ::
  "(string \<times> (world \<Rightarrow> dialogs \<Rightarrow> gui \<Rightarrow> gui \<times> event list)) list" where
  "class_body =
     [(''_load_accounts'', load_accounts),
      (''on_account_changed'', on_account_changed),
      (''on_generate'', on_generate),
      (''on_validate_clicked'', on_validate_clicked_first),
      (''on_save'', on_save),
      (''on_send'', on_send),
      (''select_schema_file'', select_schema_file),
      (''on_validate_clicked'', on_validate_clicked),
      (''on_load_logo'', on_load_logo)]"

definition class_namespace ::
  "string \<Rightarrow> (world \<Rightarrow> dialogs \<Rightarrow> gui \<Rightarrow> gui \<times> event list) option" where
  "class_namespace = foldl (\<lambda>ns (name, body). ns(name \<mapsto> body)) Map.empty class_body"

text \<open>
  The widgets that \<open>_build_ui\<close> connects, each to the attribute of that name looked up
  on the finished class.
\<close>

datatype widget =
    RefreshButton | LoadLogoButton | SchemaSelectButton | GenerateButton
  | ValidateButton | SaveButton | SendButton | AccountCombo

definition connected :: "widget \<Rightarrow> string" where
  "connected b =
     (case b of
        RefreshButton \<Rightarrow> ''_load_accounts''
      | LoadLogoButton \<Rightarrow> ''on_load_logo''
      | SchemaSelectButton \<Rightarrow> ''select_schema_file''
      | GenerateButton \<Rightarrow> ''on_generate''
      | ValidateButton \<Rightarrow> ''on_validate_clicked''
      | SaveButton \<Rightarrow> ''on_save''
      | SendButton \<Rightarrow> ''on_send''
      | AccountCombo \<Rightarrow> ''on_account_changed'')"

definition trigger :: "widget \<Rightarrow> world \<Rightarrow> dialogs \<Rightarrow> gui \<Rightarrow> gui \<times> event list" where
  "trigger b w d s =
     (case class_namespace (connected b) of None \<Rightarrow> (s, []) | Some body \<Rightarrow> body w d s)"

section \<open>The web front end (\<open>swift_alliance_streamlit.py\<close>)\<close>

text \<open>
  The script runs from top to bottom on every interaction. \<open>session\<close> is what it keeps
  in \<open>st.session_state\<close>; \<open>page\<close> is what one run reads from its widgets, from
  \<open>config_manager.load_config()\<close> and from the listing of the schema directory; \<open>run\<close>
  is the progress of one run: the session, the world with the files written so far,
  what has been shown and produced, and whether the run goes on, was ended by
  \<open>st.stop()\<close> or by an exception nobody caught. The directory of the script is taken to
  be the current one. The account panel of the left column, which only displays, is
  left out.
\<close>

record session =
  ss_schema_path :: "string option"
  ss_logo_path :: "string option"
  preview_content :: string
  validation_result :: validation
  last_format :: "string option"

record page =
  loaded_config :: "(string \<times> string option) list"
  uploaded_xsd :: "(string \<times> string) option"
  available_schemas :: "string list"
  schema_sel :: string
  logo_file :: "(string \<times> string) option"
  page_form :: form
  fmt :: string
  btn_generate :: bool
  btn_validate :: bool
  btn_download :: bool
  btn_send_mock :: bool
  override_checkbox :: bool
  send_method :: string
  st_smtp_host :: string
  st_smtp_user :: string
  st_smtp_recipient :: string
  btn_send_email :: bool
  st_sftp_host :: string
  st_sftp_port :: string
  st_sftp_user :: string
  st_remote_path :: string
  btn_upload_sftp :: bool
  now_stamp :: string

datatype flow = Running | Stopped | Raised error

record run =
  state :: session
  rworld :: world
  out :: "event list"
  flow :: flow

definition em_dash :: string where
  "em_dash = [CHR 0xE2, CHR 0x80, CHR 0x94]"

definition say :: "string \<Rightarrow> string \<Rightarrow> run \<Rightarrow> run" where
  "say kind text r = r\<lparr>out := out r @ [StMessage kind text]\<rparr>"

definition emit :: "event \<Rightarrow> run \<Rightarrow> run" where
  "emit e r = r\<lparr>out := out r @ [e]\<rparr>"

definition write_file :: "string \<Rightarrow> string \<Rightarrow> run \<Rightarrow> run" where
  "write_file path bytes r =
     r\<lparr>rworld := (rworld r)\<lparr>w_lib := (w_lib (rworld r))
                     \<lparr>file_at := (file_at (w_lib (rworld r)))(path := Readable bytes)\<rparr>\<rparr>,
       out := out r @ [WriteFile path bytes]\<rparr>"

definition config_get :: "(string \<times> string option) list \<Rightarrow> string \<Rightarrow> string option" where
  "config_get cfg k = (case map_of cfg k of None \<Rightarrow> None | Some v \<Rightarrow> v)"

text \<open>
  Lines 43 to 47 and 151 to 156: the keys of the session state that are missing, all of
  them in a new session, are filled from the configuration and with the defaults.
\<close>

definition session_of :: "page \<Rightarrow> session option \<Rightarrow> session" where
  "session_of pg old =
     (case old of
        Some s \<Rightarrow> s
      | None \<Rightarrow> \<lparr>ss_schema_path = config_get (loaded_config pg) ''schema_path'',
                  ss_logo_path = config_get (loaded_config pg) ''logo_path'',
                  preview_content = [],
                  validation_result = \<lparr>valid = False, errors = []\<rparr>,
                  last_format = None\<rparr>)"


text \<open>The dictionary handed to \<open>config_manager.save_config\<close>, written from the session state.\<close>

definition config_of :: "session \<Rightarrow> (string \<times> string option) list" where
  "config_of s = [(''schema_path'', ss_schema_path s), (''logo_path'', ss_logo_path s)]"




text \<open>
  \<open>_build_payment_dict\<close>: an unreadable amount is reported and \<open>None\<close> is returned; what
  \<open>payment_from_transaction\<close> raises is not caught.
\<close>

definition build_payment_dict :: "world \<Rightarrow> form \<Rightarrow> error + payment option" where
  "build_payment_dict w f =
     (case parse_decimal (py_strip (in_amount f)) of
        None \<Rightarrow> Inr None
      | Some amt \<Rightarrow>
          (case payment_from_transaction (w_clock w) (txn_args_of f amt) of
             Inl e \<Rightarrow> Inl e
           | Inr p \<Rightarrow> Inr (Some p)))"

definition starts_with :: "string \<Rightarrow> string \<Rightarrow> bool" where
  "starts_with pre s = (take (length pre) s = pre)"

definition set_result :: "bool \<Rightarrow> string list \<Rightarrow> run \<Rightarrow> run" where
  "set_result v es r = r\<lparr>state := (state r)\<lparr>validation_result := \<lparr>valid = v, errors = es\<rparr>\<rparr>\<rparr>"

text \<open>Lines 179 to 213: the branch of the button Generate Preview.\<close>

definition generate_stage :: "page \<Rightarrow> run \<Rightarrow> run" where
  "generate_stage pg r =
     (if \<not> btn_generate pg then r
      else
        (case build_payment_dict (rworld r) (page_form pg) of
           Inl e \<Rightarrow> r\<lparr>flow := Raised e\<rparr>
         | Inr None \<Rightarrow>
             (say ''error'' ''Invalid amount. Use numbers like 1234.56'' r)\<lparr>flow := Stopped\<rparr>
         | Inr (Some payment) \<Rightarrow>
             if starts_with ''ISO20022'' (fmt pg) then
               (let xml = generate_pain001 (w_header (rworld r)) payment;
                    r1 = r\<lparr>state := (state r)\<lparr>preview_content := xml, last_format := Some ''XML''\<rparr>\<rparr>;
                    r2 = say ''success'' ''XML preview generated'' r1
                in if truthy (ss_schema_path (state r2))
                      \<and> path_exists (w_lib (rworld r2)) (the (ss_schema_path (state r2))) then
                     (case validate_pain001_generated (w_lib (rworld r2)) xml
                             (the (ss_schema_path (state r2))) of
                        Inr res \<Rightarrow>
                          (let r3 = set_result (fst res) (snd res) r2
                           in if fst res then say ''success'' ''XML validated: VALID'' r3
                              else say ''error''
                                     (''XML validation: INVALID '' @ em_dash @ '' see details below'') r3)
                      | Inl e \<Rightarrow>
                          set_result False [error_message e]
                            (say ''error'' (''Schema error: '' @ error_message e) r2))
                   else
                     set_result False [''No schema uploaded for validation.'']
                       (say ''warning''
                          (''No persisted schema selected '' @ em_dash
                           @ '' upload a pain.001 XSD on the left to enable validation.'') r2))
             else
               (let mt = generate_mt103 payment;
                    r1 = r\<lparr>state := (state r)\<lparr>preview_content := mt, last_format := Some ''MT''\<rparr>\<rparr>;
                    res = validate_mt103_text mt;
                    r2 = set_result (fst res) (snd res) r1
                in if fst res then say ''success'' ''MT103 generated and basic validation PASSED'' r2
                   else say ''error''
                          (''MT103 basic validation FAILED '' @ em_dash @ '' see details below'') r2)))"

text \<open>Lines 216 to 241: the branch of the button Validate Current Preview.\<close>

definition validate_stage :: "page \<Rightarrow> run \<Rightarrow> run" where
  "validate_stage pg r =
     (if \<not> btn_validate pg then r
      else if preview_content (state r) = [] then
        say ''warning'' ''No preview content to validate. Generate a message first.'' r
      else if last_format (state r) = Some ''XML'' then
        (if \<not> truthy (ss_schema_path (state r))
            \<or> \<not> path_exists (w_lib (rworld r)) (the (ss_schema_path (state r))) then
           say ''error''
             ''No persisted schema. Upload a pain.001 XSD on the left to validate XML.'' r
         else
           (case validate_pain001_generated (w_lib (rworld r)) (preview_content (state r))
                   (the (ss_schema_path (state r))) of
              Inr res \<Rightarrow>
                (let r1 = set_result (fst res) (snd res) r
                 in if fst res then say ''success'' ''XML validation: VALID'' r1
                    else say ''error'' ''XML validation: INVALID'' r1)
            | Inl e \<Rightarrow> say ''error'' (''Schema error: '' @ error_message e) r))
      else
        (let res = validate_mt103_text (preview_content (state r));
             r1 = set_result (fst res) (snd res) r
         in if fst res then say ''success'' ''MT103 validation: OK'' r1
            else say ''error'' ''MT103 validation: issues found'' r1))"



text \<open>Lines 273 to 330: the branch of the button Send (mock).\<close>

definition send_stage :: "page \<Rightarrow> run \<Rightarrow> run" where
  "send_stage pg r =
     (if \<not> btn_send_mock pg then r
      else if preview_content (state r) = [] then
        say ''warning'' ''Nothing to send. Generate a preview first.'' r
      else if \<not> valid (validation_result (state r)) \<and> \<not> override_checkbox pg then
        r\<lparr>flow := Stopped\<rparr>
      else if send_method pg = ''Log locally'' then
        say ''success'' ''Message logged to swift_send_log.txt''
          (emit (AppendFile ''swift_send_log.txt''
                   (log_entry (rworld r) (preview_content (state r)))) r)
      else if send_method pg = ''Email (SMTP)'' then
        (if btn_send_email pg then
           (let r1 = emit (SmtpSend (st_smtp_host pg) (st_smtp_user pg) (st_smtp_recipient pg)
                             (mail_text (preview_content (state r)))) r
            in case w_smtp_failure (rworld r) of
                 None \<Rightarrow> say ''success'' ''Email sent (SMTP).'' r1
               | Some e \<Rightarrow> say ''error'' (''SMTP send failed: '' @ e) r1)
         else r)
      else if \<not> w_has_paramiko (rworld r) then
        say ''error'' ''Paramiko not installed; SFTP not available.'' r
      else if btn_upload_sftp pg then
        (let r1 = emit (SftpPut (st_sftp_host pg) (st_sftp_port pg) (st_sftp_user pg)
                          (st_remote_path pg) (preview_content (state r))) r
         in case w_sftp_failure (rworld r) of
              None \<Rightarrow> say ''success'' ''Uploaded via SFTP.'' r1
            | Some e \<Rightarrow> say ''error'' (''SFTP upload failed: '' @ e) r1)
      else r)"



text \<open>What a stage adds to what the run has shown and produced before it.\<close>

definition added :: "(run \<Rightarrow> run) \<Rightarrow> run \<Rightarrow> event list" where
  "added stage r = drop (length (out r)) (out (stage r))"

definition writes_both_keys :: "event \<Rightarrow> bool" where
  "writes_both_keys e =
     (case e of SaveConfig cfg \<Rightarrow> map fst cfg = [''schema_path'', ''logo_path''] | _ \<Rightarrow> True)"

section \<open>Concrete inputs\<close>

text \<open>The payment of the example of section 8, as typed into the form, and a world around it.\<close>

definition example_form :: form where
  "example_form =
     \<lparr>in_ordering_name = ''Acme GmbH'',
      in_ordering_account = ''DE89370400440532013000'',
      in_beneficiary_name = ''Globex SA'',
      in_beneficiary_account = ''FR1420041010050500013M02606'',
      in_beneficiary_bic = [],
      in_amount = ''1234.56'',
      in_currency = ''EUR'',
      in_value_date = ''2024-06-01'',
      in_remittance = ''Invoice 123'',
      in_reference = ''REF001''\<rparr>"

definition example_raw :: raw_payment where
  "example_raw =
     \<lparr>raw_ordering_account = ''DE89370400440532013000'',
      raw_ordering_name = ''Acme GmbH'',
      raw_beneficiary_account = ''FR1420041010050500013M02606'',
      raw_beneficiary_name = ''Globex SA'',
      raw_beneficiary_bic = None,
      raw_amount = ''1234.56'',
      raw_currency = ''EUR'',
      raw_value_date = Some ''2024-06-01'',
      raw_remittance_info = Some ''Invoice 123'',
      raw_reference = Some ''REF001''\<rparr>"

definition example_payment :: payment where
  "example_payment =
     \<lparr>ordering_account = ''DE89370400440532013000'',
      ordering_name = ''Acme GmbH'',
      beneficiary_account = ''FR1420041010050500013M02606'',
      beneficiary_name = ''Globex SA'',
      beneficiary_bic = None,
      amount = Finite False 123456 (- 2),
      currency = ''EUR'',
      value_date = \<lparr>year = 2024, month = 6, day = 1\<rparr>,
      remittance_info = ''Invoice 123'',
      reference = ''REF001''\<rparr>"

definition example_clock :: clock where
  "example_clock = \<lparr>today = \<lparr>year = 2024, month = 5, day = 31\<rparr>, fresh_reference = ''GEN0001''\<rparr>"

definition example_header :: xml_header where
  "example_header =
     \<lparr>creation_time = ''2024-05-31T12:00:00'', message_id = ''MSG0001'',
      payment_info_id = ''PMT0001'',
      xml_namespace = ''urn:iso:std:iso:20022:tech:xsd:pain.001.001.03''\<rparr>"

text \<open>
  A disk on which \<open>assets/schemas/locked.xsd\<close> exists but cannot be read and
  \<open>assets/schemas/pain.xsd\<close> is a readable schema that every document satisfies.
\<close>

definition example_lib :: xml_library where
  "example_lib =
     \<lparr>parse_failure = (\<lambda>x. None),
      file_at = (\<lambda>path. if path = ''assets/schemas/locked.xsd'' then Unreadable
                        else if path = ''assets/schemas/pain.xsd'' then Readable ''<xs:schema/>''
                        else Missing),
      schema_violations = (\<lambda>xsd x. [])\<rparr>"

definition example_world :: world where
  "example_world =
     \<lparr>w_clock = example_clock, w_header = example_header, w_lib = example_lib,
      w_ledger = (\<lambda>a. None), w_utcnow = ''2024-05-31T12:00:00'',
      w_has_paramiko = False, w_smtp_failure = None, w_sftp_failure = None\<rparr>"

definition example_dialogs :: dialogs where
  "example_dialogs =
     \<lparr>save_file_name = ''out.txt'', open_file_name = [], override_yes = False,
      send_item = ''Mock log only'', send_ok = True,
      smtp_host = [], smtp_ok1 = False, smtp_user = [], smtp_ok2 = False, smtp_ok3 = False,
      smtp_recipient = [], smtp_ok4 = False,
      sftp_host = [], sftp_ok1 = False, sftp_port = [], sftp_ok2 = False, sftp_user = [],
      sftp_ok3 = False, sftp_ok4 = False, sftp_remote_path = [], sftp_ok5 = False,
      current_account = None, logo_data = []\<rparr>"

text \<open>The window after start with the example typed in, and with a message in the preview.\<close>

definition example_gui :: gui where
  "example_gui = (gui_init example_world)\<lparr>inputs := example_form\<rparr>"

definition previewing_gui :: gui where
  "previewing_gui = example_gui\<lparr>preview := ''<Document/>''\<rparr>"

definition example_page :: page where
  "example_page =
     \<lparr>loaded_config = [], uploaded_xsd = None, available_schemas = [], schema_sel = [],
      logo_file = None, page_form = example_form, fmt = ''ISO20022 pain.001 (XML)'',
      btn_generate = False, btn_validate = False, btn_download = False, btn_send_mock = False,
      override_checkbox = False, send_method = ''Log locally'',
      st_smtp_host = [], st_smtp_user = [], st_smtp_recipient = [], btn_send_email = False,
      st_sftp_host = [], st_sftp_port = [], st_sftp_user = [], st_remote_path = [],
      btn_upload_sftp = False, now_stamp = ''20240531120000''\<rparr>"

definition example_run :: run where
  "example_run =
     \<lparr>state = session_of example_page None, rworld = example_world, out = [], flow = Running\<rparr>"

text \<open>
  A session whose XML preview was found valid earlier, while the schema it was validated
  against has gone from the disk since.
\<close>

definition stale_run :: run where
  "stale_run =
     \<lparr>state = \<lparr>ss_schema_path = Some ''assets/schemas/gone.xsd'', ss_logo_path = None,
               preview_content = ''<Document/>'',
               validation_result = \<lparr>valid = True, errors = []\<rparr>,
               last_format = Some ''XML''\<rparr>,
      rworld = example_world, out = [], flow = Running\<rparr>"

text \<open>A session and a window whose schema path points to the file that cannot be read.\<close>

definition locked_run :: run where
  "locked_run =
     \<lparr>state = \<lparr>ss_schema_path = Some ''assets/schemas/locked.xsd'', ss_logo_path = None,
               preview_content = ''<Document/>'',
               validation_result = \<lparr>valid = True, errors = []\<rparr>,
               last_format = Some ''XML''\<rparr>,
      rworld = example_world, out = [], flow = Running\<rparr>"

definition locked_gui :: gui where
  "locked_gui = example_gui\<lparr>schema_path := Some ''assets/schemas/locked.xsd''\<rparr>"

section \<open>Helper facts\<close>


lemma class_namespace_validate:
  "class_namespace ''on_validate_clicked'' = Some on_validate_clicked"
  by (simp add: class_namespace_def class_body_def)

lemma class_namespace_simps:
  "class_namespace ''_load_accounts'' = Some load_accounts"
  "class_namespace ''on_account_changed'' = Some on_account_changed"
  "class_namespace ''on_generate'' = Some on_generate"
  "class_namespace ''on_save'' = Some on_save"
  "class_namespace ''on_send'' = Some on_send"
  "class_namespace ''select_schema_file'' = Some select_schema_file"
  "class_namespace ''on_load_logo'' = Some on_load_logo"
  by (simp_all add: class_namespace_def class_body_def)

lemma trigger_simps:
  "trigger RefreshButton = load_accounts"
  "trigger LoadLogoButton = on_load_logo"
  "trigger SchemaSelectButton = select_schema_file"
  "trigger GenerateButton = on_generate"
  "trigger ValidateButton = on_validate_clicked"
  "trigger SaveButton = on_save"
  "trigger SendButton = on_send"
  "trigger AccountCombo = on_account_changed"
  by (rule ext, rule ext, rule ext,
      simp add: trigger_def connected_def class_namespace_simps class_namespace_validate)+

lemma on_send_state: "fst (on_send w d s) = s"
  by (simp add: on_send_def Let_def)

lemma on_save_state: "fst (on_save w d s) = s"
  by (simp add: on_save_def)

lemma on_account_changed_result:
  "last_validation_result (fst (on_account_changed w d s)) = last_validation_result s"
  by (simp add: on_account_changed_def split: option.splits prod.splits)

section \<open>The claims\<close>

text \<open>
  C7. In the desktop window the button Validate Now is connected to
  \<open>on_validate_clicked\<close>, which the class defines twice; the name is bound to the later
  definition, whose body is \<open>pass\<close> and which is not the validating one. A click
  therefore changes nothing: not \<open>last_validation_result\<close>, not the status label, not the
  issue list, and it shows nothing. Since no other widget but Generate Preview touches
  \<open>last_validation_result\<close> either, the send gate only ever sees the validation done at
  generation time.
\<close>

theorem validate_now_does_nothing:
  "trigger ValidateButton w d s = (s, [])
   \<and> class_namespace ''on_validate_clicked'' = Some on_validate_clicked
   \<and> on_validate_clicked \<noteq> on_validate_clicked_first
   \<and> (b \<noteq> GenerateButton \<longrightarrow>
        last_validation_result (fst (trigger b w d s)) = last_validation_result s)"
proof -
  have "on_validate_clicked example_world example_dialogs example_gui
        \<noteq> on_validate_clicked_first example_world example_dialogs example_gui"
    by (simp add: on_validate_clicked_def on_validate_clicked_first_def example_gui_def
        gui_init_def)
  then have neq: "on_validate_clicked \<noteq> on_validate_clicked_first" by metis
  have frame: "last_validation_result (fst (trigger b w d s)) = last_validation_result s"
    if "b \<noteq> GenerateButton"
    using that
    by (cases b) (simp_all add: trigger_simps on_send_state on_save_state
        on_account_changed_result load_accounts_def on_validate_clicked_def
        on_load_logo_def select_schema_file_def Let_def)
  show ?thesis
    using neq frame by (simp add: trigger_simps on_validate_clicked_def class_namespace_validate)
qed

theorem validate_now_does_nothing_witness:
  "trigger ValidateButton example_world example_dialogs previewing_gui = (previewing_gui, [])
   \<and> SendButton \<noteq> GenerateButton
   \<and> last_validation_result (fst (trigger SendButton example_world example_dialogs previewing_gui))
       = last_validation_result previewing_gui"
  using validate_now_does_nothing [of example_world example_dialogs previewing_gui SendButton]
  by simp




lemma dropWhile_hd: "xs \<noteq> [] \<Longrightarrow> \<not> P (hd xs) \<Longrightarrow> dropWhile P xs = xs"
  by (cases xs) auto

lemma strip_unpadded:
  "\<not> py_isspace (hd s) \<Longrightarrow> \<not> py_isspace (last s) \<Longrightarrow> s \<noteq> [] \<Longrightarrow> py_strip s = s"
  by (simp add: py_strip_def dropWhile_hd hd_rev)

lemma example_parse_amount: "parse_decimal ''1234.56'' = Some (Finite False 123456 (- 2))"
  by (simp add: parse_decimal_def py_strip_def py_isspace_def split_sign_def is_digit_def is_special_word_def
      to_lower_def is_upper_def parse_exponent_def digits_val_def digit_val_def Let_def)

lemma example_parse_date: "parse_date ''2024-06-01'' = Some \<lparr>year = 2024, month = 6, day = 1\<rparr>"
  by (simp add: parse_date_def is_digit_def digits_val_def digit_val_def valid_date_def
      days_in_month_def Let_def)

lemma example_txn_args:
  "txn_args_of example_form amt =
     \<lparr>arg_account_number = ''DE89370400440532013000'', arg_account_name = ''Acme GmbH'',
      arg_beneficiary_account = ''FR1420041010050500013M02606'',
      arg_beneficiary_name = ''Globex SA'', arg_amount = amt, arg_currency = ''EUR'',
      arg_value_date = Some ''2024-06-01'', arg_remittance_info = Some ''Invoice 123'',
      arg_beneficiary_bic = None, arg_reference = Some ''REF001''\<rparr>"
  by (simp add: txn_args_of_def example_form_def strip_unpadded py_isspace_def or_str_def
      or_None_def py_strip_def)

lemma example_args:
  "payment_from_transaction clk (txn_args_of example_form (Finite False 123456 (- 2)))
     = Inr example_payment"
  by (simp add: example_txn_args payment_from_transaction_def is_positive_def or_str_def
      strip_unpadded py_isspace_def to_upper_def is_lower_def is_upper_def example_parse_date
      example_payment_def Let_def)

lemma example_inputs [simp]:
  "inputs example_gui = example_form" "w_clock example_world = example_clock"
  "inputs previewing_gui = example_form" "in_amount example_form = ''1234.56''"
  by (simp_all add: example_gui_def example_world_def previewing_gui_def example_form_def)

lemma example_collect: "collect_payment example_world example_gui = Inr example_payment"
  by (simp add: collect_payment_def strip_unpadded py_isspace_def example_parse_amount example_args)

lemma example_build:
  "build_payment_dict example_world example_form = Inr (Some example_payment)"
  by (simp add: build_payment_dict_def strip_unpadded py_isspace_def example_parse_amount example_args)


lemma say_simps [simp]:
  "state (say k t r) = state r" "rworld (say k t r) = rworld r" "flow (say k t r) = flow r"
  "out (say k t r) = out r @ [StMessage k t]"
  by (simp_all add: say_def)

lemma emit_simps [simp]:
  "state (emit e r) = state r" "rworld (emit e r) = rworld r" "flow (emit e r) = flow r"
  "out (emit e r) = out r @ [e]"
  by (simp_all add: emit_def)

lemma write_file_simps [simp]:
  "state (write_file p b r) = state r" "flow (write_file p b r) = flow r"
  "out (write_file p b r) = out r @ [WriteFile p b]"
  by (simp_all add: write_file_def)

lemma set_result_simps [simp]:
  "validation_result (state (set_result v es r)) = \<lparr>valid = v, errors = es\<rparr>"
  "preview_content (state (set_result v es r)) = preview_content (state r)"
  "last_format (state (set_result v es r)) = last_format (state r)"
  "ss_schema_path (state (set_result v es r)) = ss_schema_path (state r)"
  "ss_logo_path (state (set_result v es r)) = ss_logo_path (state r)"
  "rworld (set_result v es r) = rworld r" "flow (set_result v es r) = flow r"
  "out (set_result v es r) = out r"
  by (simp_all add: set_result_def)

lemma set_validation_result_simps [simp]:
  "last_validation_result (set_validation_result v es s) = \<lparr>valid = v, errors = es\<rparr>"
  "preview (set_validation_result v es s) = preview s"
  "schema_path (set_validation_result v es s) = schema_path s"
  by (simp_all add: set_validation_result_def)

text \<open>
  C3. Whenever a pain.001 preview is generated and no schema reference is configured
  (in the web front end also when the configured path does not exist), the front end
  stores the result \<open>valid = False\<close> with one explanatory issue; validation is neither
  skipped silently nor left valid. The preview is the generated document.
\<close>

theorem no_schema_is_invalid:
  "(collect_payment w s = Inr p \<and> format_checked s \<noteq> 0 \<and> \<not> truthy (schema_path s) \<longrightarrow>
      last_validation_result (fst (on_generate w d s))
        = \<lparr>valid = False,
           errors = [''No pain.001 XSD selected. Please select an XSD to validate.'']\<rparr>
      \<and> preview (fst (on_generate w d s)) = generate_pain001 (w_header w) p)
   \<and> (btn_generate pg \<and> build_payment_dict (rworld r) (page_form pg) = Inr (Some q)
       \<and> starts_with ''ISO20022'' (fmt pg)
       \<and> \<not> (truthy (ss_schema_path (state r))
             \<and> path_exists (w_lib (rworld r)) (the (ss_schema_path (state r)))) \<longrightarrow>
      validation_result (state (generate_stage pg r))
        = \<lparr>valid = False, errors = [''No schema uploaded for validation.'']\<rparr>
      \<and> preview_content (state (generate_stage pg r))
          = generate_pain001 (w_header (rworld r)) q)"
  by (auto simp: on_generate_def generate_stage_def Let_def)

lemma example_gui_simps [simp]:
  "format_checked example_gui = 1" "schema_path example_gui = None"
  "last_validation_result example_gui = \<lparr>valid = False, errors = []\<rparr>"
  "preview example_gui = []"
  "format_checked previewing_gui = 1" "schema_path previewing_gui = None"
  "last_validation_result previewing_gui = \<lparr>valid = False, errors = []\<rparr>"
  "preview previewing_gui = ''<Document/>''"
  by (simp_all add: example_gui_def previewing_gui_def gui_init_def)

lemma example_run_simps [simp]:
  "rworld example_run = example_world" "out example_run = []" "flow example_run = Running"
  "ss_schema_path (state example_run) = None" "ss_logo_path (state example_run) = None"
  "preview_content (state example_run) = []"
  "validation_result (state example_run) = \<lparr>valid = False, errors = []\<rparr>"
  "last_format (state example_run) = None"
  by (simp_all add: example_run_def session_of_def example_page_def config_get_def)

lemma example_page_simps [simp]:
  "page_form example_page = example_form" "fmt example_page = ''ISO20022 pain.001 (XML)''"
  "page_form (pg\<lparr>btn_generate := b\<rparr>) = page_form pg"
  "fmt (pg\<lparr>btn_generate := b\<rparr>) = fmt pg"
  by (simp_all add: example_page_def)

theorem no_schema_is_invalid_witness:
  "last_validation_result (fst (on_generate example_world example_dialogs example_gui))
     = \<lparr>valid = False,
        errors = [''No pain.001 XSD selected. Please select an XSD to validate.'']\<rparr>
   \<and> preview (fst (on_generate example_world example_dialogs example_gui))
       = generate_pain001 (w_header example_world) example_payment
   \<and> validation_result (state (generate_stage (example_page\<lparr>btn_generate := True\<rparr>) example_run))
       = \<lparr>valid = False, errors = [''No schema uploaded for validation.'']\<rparr>
   \<and> preview_content (state (generate_stage (example_page\<lparr>btn_generate := True\<rparr>) example_run))
       = generate_pain001 (w_header (rworld example_run)) example_payment"
  using no_schema_is_invalid [of example_world example_gui example_payment example_dialogs
      "example_page\<lparr>btn_generate := True\<rparr>" example_run example_payment]
  by (simp add: example_collect example_build truthy_def starts_with_def)

lemma send_stage_flow:
  "flow (send_stage pg r) =
     (if btn_send_mock pg \<and> preview_content (state r) \<noteq> []
         \<and> \<not> valid (validation_result (state r)) \<and> \<not> override_checkbox pg
      then Stopped else flow r)"
  by (simp add: send_stage_def Let_def split: option.splits)

lemma validate_stage_no_schema:
  "btn_validate pg \<Longrightarrow> preview_content (state r) \<noteq> [] \<Longrightarrow> last_format (state r) = Some ''XML''
   \<Longrightarrow> \<not> (truthy (ss_schema_path (state r))
         \<and> path_exists (w_lib (rworld r)) (the (ss_schema_path (state r))))
   \<Longrightarrow> validate_stage pg r
       = say ''error'' ''No persisted schema. Upload a pain.001 XSD on the left to validate XML.'' r"
  by (simp add: validate_stage_def)

text \<open>
  C9. In the web front end, Validate Current Preview on an XML preview, when the
  persisted schema path is unset or does not exist on disk, shows an error and leaves
  the session state as it was: no \<open>valid = False\<close> is recorded, the verdict of the
  earlier validation stays, and the send branch decides on it as before.
\<close>

theorem manual_validation_without_schema:
  "btn_validate pg \<and> preview_content (state r) \<noteq> [] \<and> last_format (state r) = Some ''XML''
   \<and> \<not> (truthy (ss_schema_path (state r))
         \<and> path_exists (w_lib (rworld r)) (the (ss_schema_path (state r)))) \<longrightarrow>
     validate_stage pg r
       = say ''error'' ''No persisted schema. Upload a pain.001 XSD on the left to validate XML.'' r
     \<and> state (validate_stage pg r) = state r
     \<and> validation_result (state (validate_stage pg r)) = validation_result (state r)
     \<and> flow (send_stage pg2 (validate_stage pg r)) = flow (send_stage pg2 r)"
proof (intro impI)
  assume a: "btn_validate pg \<and> preview_content (state r) \<noteq> [] \<and> last_format (state r) = Some ''XML''
   \<and> \<not> (truthy (ss_schema_path (state r))
         \<and> path_exists (w_lib (rworld r)) (the (ss_schema_path (state r))))"
  then have v: "validate_stage pg r
       = say ''error'' ''No persisted schema. Upload a pain.001 XSD on the left to validate XML.'' r"
    by (intro validate_stage_no_schema) simp_all
  show "validate_stage pg r
       = say ''error'' ''No persisted schema. Upload a pain.001 XSD on the left to validate XML.'' r
     \<and> state (validate_stage pg r) = state r
     \<and> validation_result (state (validate_stage pg r)) = validation_result (state r)
     \<and> flow (send_stage pg2 (validate_stage pg r)) = flow (send_stage pg2 r)"
    by (simp add: v send_stage_flow say_def)
qed

theorem manual_validation_without_schema_witness:
  "validation_result (state (validate_stage (example_page\<lparr>btn_validate := True\<rparr>) stale_run))
     = \<lparr>valid = True, errors = []\<rparr>
   \<and> out (validate_stage (example_page\<lparr>btn_validate := True\<rparr>) stale_run)
     = [StMessage ''error''
          ''No persisted schema. Upload a pain.001 XSD on the left to validate XML.'']
   \<and> flow (send_stage (example_page\<lparr>btn_send_mock := True\<rparr>)
        (validate_stage (example_page\<lparr>btn_validate := True\<rparr>) stale_run)) = Running"
  using manual_validation_without_schema [of "example_page\<lparr>btn_validate := True\<rparr>" stale_run
      "example_page\<lparr>btn_send_mock := True\<rparr>"]
  by (simp add: stale_run_def truthy_def path_exists_def example_world_def example_lib_def
      say_def send_stage_flow)

lemma keys_say: "list_all writes_both_keys (out (say k t r)) = list_all writes_both_keys (out r)"
  by (simp add: writes_both_keys_def)

lemma keys_emit:
  "list_all writes_both_keys (out (emit e r)) = (list_all writes_both_keys (out r) \<and> writes_both_keys e)"
  by simp

lemma keys_write: "list_all writes_both_keys (out (write_file p b r)) = list_all writes_both_keys (out r)"
  by (simp add: writes_both_keys_def)

lemma keys_config: "writes_both_keys (SaveConfig (config_of s))"
  by (simp add: writes_both_keys_def config_of_def)














lemma smtp_transport_free:
  "\<not> (smtp_ok1 d \<and> smtp_ok2 d \<and> smtp_ok3 d \<and> smtp_ok4 d) \<Longrightarrow> send_via_smtp w d c = []"
  by (auto simp: send_via_smtp_def)

lemma on_send_declined:
  "preview s \<noteq> [] \<Longrightarrow> \<not> valid (last_validation_result s) \<Longrightarrow> \<not> override_yes d
   \<Longrightarrow> on_send w d s = (s, [override_question])"
  by (simp add: on_send_def)

lemma on_send_gate:
  "e \<in> set (snd (on_send w d s)) \<Longrightarrow> is_transport e
   \<Longrightarrow> valid (last_validation_result s) \<or> override_yes d"
  by (cases "preview s = []"; cases "valid (last_validation_result s)"; cases "override_yes d")
     (simp_all add: on_send_def is_transport_def override_question_def)

lemma on_send_asks_first:
  "preview s \<noteq> [] \<Longrightarrow> \<not> valid (last_validation_result s)
   \<Longrightarrow> take 1 (snd (on_send w d s)) = [override_question]"
  by (simp add: on_send_def Let_def)

lemma send_stage_declined:
  "btn_send_mock pg \<Longrightarrow> preview_content (state r) \<noteq> []
   \<Longrightarrow> \<not> valid (validation_result (state r)) \<Longrightarrow> \<not> override_checkbox pg
   \<Longrightarrow> send_stage pg r = r\<lparr>flow := Stopped\<rparr>"
  by (simp add: send_stage_def)

lemma send_stage_gate:
  "e \<in> set (added (send_stage pg) r) \<Longrightarrow> is_transport e
   \<Longrightarrow> valid (validation_result (state r)) \<or> override_checkbox pg"
  by (cases "valid (validation_result (state r))"; cases "override_checkbox pg")
     (simp_all add: send_stage_def added_def is_transport_def say_def emit_def Let_def
       split: if_splits option.splits)

text \<open>
  C1, as amended. Inside the send action (\<open>SwiftGUI.on_send\<close>, and the branch of the
  button Send (mock) of the web front end) no transport (file, mail relay, remote
  upload, log) is invoked while the stored validation result is invalid, unless the user
  confirms the override (Yes in the question box, the override check box). In the
  desktop window the question comes before anything else the handler does. When the
  user declines, the handler does nothing but ask: the state is unchanged and no
  transport runs; in the web front end the run stops and has added nothing.
\<close>

theorem send_is_gated:
  "(\<forall>e \<in> set (snd (on_send w d s)).
       is_transport e \<longrightarrow> valid (last_validation_result s) \<or> override_yes d)
   \<and> (preview s \<noteq> [] \<and> \<not> valid (last_validation_result s) \<longrightarrow>
        take 1 (snd (on_send w d s)) = [override_question])
   \<and> (preview s \<noteq> [] \<and> \<not> valid (last_validation_result s) \<and> \<not> override_yes d \<longrightarrow>
        on_send w d s = (s, [override_question]))
   \<and> (\<forall>e \<in> set (added (send_stage pg) r).
         is_transport e \<longrightarrow> valid (validation_result (state r)) \<or> override_checkbox pg)
   \<and> (btn_send_mock pg \<and> preview_content (state r) \<noteq> []
       \<and> \<not> valid (validation_result (state r)) \<and> \<not> override_checkbox pg \<longrightarrow>
        send_stage pg r = r\<lparr>flow := Stopped\<rparr>)"
  using on_send_gate [of _ w d s] on_send_asks_first [of s w d] on_send_declined [of s d w]
    send_stage_gate [of _ pg r] send_stage_declined [of pg r]
  by blast


theorem send_is_gated_witness:
  "on_send example_world example_dialogs previewing_gui = (previewing_gui, [override_question])
   \<and> take 1 (snd (on_send example_world (example_dialogs\<lparr>override_yes := True\<rparr>) previewing_gui))
       = [override_question]
   \<and> send_stage (example_page\<lparr>btn_send_mock := True\<rparr>)
        (stale_run\<lparr>state := (state stale_run)\<lparr>validation_result := \<lparr>valid = False, errors = []\<rparr>\<rparr>\<rparr>)
       = stale_run\<lparr>state := (state stale_run)\<lparr>validation_result := \<lparr>valid = False, errors = []\<rparr>\<rparr>,
                    flow := Stopped\<rparr>"
  using send_is_gated [of example_world example_dialogs previewing_gui
      "example_page\<lparr>btn_send_mock := True\<rparr>"
      "stale_run\<lparr>state := (state stale_run)\<lparr>validation_result := \<lparr>valid = False, errors = []\<rparr>\<rparr>\<rparr>"]
    send_is_gated [of example_world "example_dialogs\<lparr>override_yes := True\<rparr>" previewing_gui
      example_page stale_run]
  by (simp add: example_dialogs_def example_page_def stale_run_def)

text \<open>
  C1, as stated, fails: the button Save Message of the desktop window writes the
  previewed message to the chosen file while the stored validation result is invalid,
  and asks for no override.
\<close>

theorem save_is_not_gated_counterexample:
  "\<not> valid (last_validation_result previewing_gui) \<and> \<not> override_yes example_dialogs
   \<and> trigger SaveButton example_world example_dialogs previewing_gui
       = (previewing_gui, [WriteFile ''out.txt'' ''<Document/>'', StatusBar ''Saved to out.txt''])
   \<and> is_transport (WriteFile ''out.txt'' ''<Document/>'')"
  by (simp add: trigger_simps on_save_def example_dialogs_def is_transport_def)






lemma locked_simps [simp]:
  "file_at example_lib ''assets/schemas/locked.xsd'' = Unreadable"
  "parse_failure example_lib x = None"
  "w_lib example_world = example_lib" "w_header example_world = example_header"
  "rworld locked_run = example_world"
  "ss_schema_path (state locked_run) = Some ''assets/schemas/locked.xsd''"
  "preview_content (state locked_run) = ''<Document/>''"
  "last_format (state locked_run) = Some ''XML''"
  "validation_result (state locked_run) = \<lparr>valid = True, errors = []\<rparr>"
  "schema_path locked_gui = Some ''assets/schemas/locked.xsd''"
  "format_checked locked_gui = 1" "inputs locked_gui = example_form"
  "last_validation_result locked_gui = \<lparr>valid = False, errors = []\<rparr>"
  by (simp_all add: example_lib_def example_world_def locked_run_def locked_gui_def)





end
